theory Spec2Isabelle
  imports Main "HOL-Library.Multiset"
begin

section \<open>JavaScript values used by the store\<close>

text \<open>
  A JavaScript \<open>Map\<close> keeps its entries in insertion order; \<open>set\<close> on a key that is
  already present replaces the value in place, and on a new key appends the entry.
  The store's maps are keyed by the identifier strings.
\<close>

type_synonym 'v js_map = "(string \<times> 'v) list"

fun map_set :: "string \<Rightarrow> 'v \<Rightarrow> 'v js_map \<Rightarrow> 'v js_map" where
  "map_set k v [] = [(k, v)]"
| "map_set k v ((k', v') # m) = (if k = k' then (k, v) # m else (k', v') # map_set k v m)"

definition map_get :: "'v js_map \<Rightarrow> string \<Rightarrow> 'v option" where
  "map_get m k = map_of m k"

definition map_values :: "'v js_map \<Rightarrow> 'v list" where
  "map_values m = map snd m"

text \<open>
  \<open>Array.prototype.find\<close>: the first element that satisfies the predicate, or
  \<open>undefined\<close> (here \<open>None\<close>).
\<close>

fun array_find :: "('a \<Rightarrow> bool) \<Rightarrow> 'a list \<Rightarrow> 'a option" where
  "array_find p [] = None"
| "array_find p (x # xs) = (if p x then Some x else array_find p xs)"

text \<open>
  The operator \<open>||\<close> returns its right operand when the left one is falsy. A value of a
  nullable column is \<open>None\<close> for \<open>null\<close> or \<open>undefined\<close>; the falsy values besides
  these are the number \<open>0\<close>, the empty string and \<open>false\<close>. Numbers are the integers of
  the \<open>integer\<close> columns; timestamps are milliseconds since the epoch.
\<close>

definition num_or_null :: "int option \<Rightarrow> int option" where
  "num_or_null x = (case x of None \<Rightarrow> None | Some n \<Rightarrow> if n = 0 then None else Some n)"

definition num_or_zero :: "int option \<Rightarrow> int" where
  "num_or_zero x = (case x of None \<Rightarrow> 0 | Some n \<Rightarrow> if n = 0 then 0 else n)"

definition str_or_null :: "string option \<Rightarrow> string option" where
  "str_or_null x = (case x of None \<Rightarrow> None | Some s \<Rightarrow> if s = [] then None else Some s)"

definition bool_or_null :: "bool option \<Rightarrow> bool option" where
  "bool_or_null x = (case x of None \<Rightarrow> None | Some b \<Rightarrow> if b then Some True else None)"

text \<open>An object or an array is always truthy, so \<open>x || null\<close> only turns \<open>undefined\<close>
  into \<open>null\<close>: both are \<open>None\<close> here.\<close>

definition obj_or_null :: "'a option \<Rightarrow> 'a option" where
  "obj_or_null x = (case x of None \<Rightarrow> None | Some v \<Rightarrow> Some v)"

section \<open>The schema\<close>

text \<open>
  The rows of the seven tables (\<open>$inferSelect\<close>) and the insert shapes
  (\<open>createInsertSchema(...).omit\<close> or \<open>.pick\<close>). A nullable column is an option, and
  so is an optional key of an insert shape. The \<open>jsonb\<close> column \<open>parsedData\<close> holds
  the object the upload route builds or receives; \<open>requirements\<close> and
  \<open>requiredSkills\<close> hold lists of strings.
\<close>

record parsed_data =
  pd_name :: string
  pd_email :: string
  pd_mobile_number :: string
  pd_skills :: "string list option"
  pd_education :: "string list"
  pd_experience :: "string list"
  pd_total_experience :: int

record user =
  user_id :: string
  user_username :: string
  user_password :: string
  user_name :: "string option"
  user_email :: "string option"
  user_phone :: "string option"
  user_createdAt :: "int option"


record resume =
  resume_id :: string
  resume_userId :: string
  resume_fileName :: string
  resume_content :: string
  resume_parsedData :: "parsed_data option"
  resume_score :: "int option"
  resume_uploadedAt :: "int option"

record insert_resume =
  ir_userId :: string
  ir_fileName :: string
  ir_content :: string
  ir_parsedData :: "parsed_data option"
  ir_score :: "int option"

record skill =
  skill_id :: string
  skill_userId :: string
  skill_name :: string
  skill_level :: string
  skill_category :: string
  skill_isInDemand :: "bool option"
  skill_addedAt :: "int option"

record insert_skill =
  is_userId :: string
  is_name :: string
  is_level :: string
  is_category :: string
  is_isInDemand :: "bool option"

record job =
  job_id :: string
  job_title :: string
  job_company :: string
  job_location :: string
  job_salary :: "string option"
  job_description :: string
  job_requirements :: "string list option"
  job_matchScore :: "int option"
  job_postedAt :: "string option"
  job_applyUrl :: "string option"
  job_fetchedAt :: "int option"

record insert_job =
  ij_title :: string
  ij_company :: string
  ij_location :: string
  ij_salary :: "string option"
  ij_description :: string
  ij_requirements :: "string list option"
  ij_matchScore :: "int option"
  ij_postedAt :: "string option"
  ij_applyUrl :: "string option"

record career_path =
  cp_id :: string
  cp_userId :: string
  cp_title :: string
  cp_description :: string
  cp_requiredSkills :: "string list option"
  cp_timeline :: "string option"
  cp_salaryRange :: "string option"
  cp_icon :: "string option"
  cp_createdAt :: "int option"


record course =
  course_id :: string
  course_title :: string
  course_description :: string
  course_provider :: string
  course_duration :: "string option"
  course_level :: "string option"
  course_rating :: "string option"
  course_imageUrl :: "string option"
  course_courseUrl :: string
  course_isFree :: "bool option"
  course_category :: "string option"
  course_addedAt :: "int option"


record activity =
  activity_id :: string
  activity_userId :: string
  activity_type :: string
  activity_description :: string
  activity_status :: string
  activity_createdAt :: "int option"

record insert_activity =
  ia_userId :: string
  ia_type :: string
  ia_description :: string
  ia_status :: string

text \<open>
  \<open>Partial<Resume>\<close>: every key may be missing. \<open>None\<close> is a key the patch does not
  name, \<open>Some v\<close> a key it names with the value \<open>v\<close> (itself \<open>None\<close> for \<open>null\<close> in a
  nullable column).
\<close>

record resume_patch =
  rp_id :: "string option"
  rp_userId :: "string option"
  rp_fileName :: "string option"
  rp_content :: "string option"
  rp_parsedData :: "parsed_data option option"
  rp_score :: "int option option"
  rp_uploadedAt :: "int option option"

section \<open>MemStorage\<close>

text \<open>
  The state of \<open>MemStorage\<close> is its seven maps. Every operation takes the state and
  returns the new one with its result. \<open>randomUUID()\<close> and \<open>new Date()\<close> are read from
  the environment: the value each call returns is an argument (\<open>uid\<close>, \<open>now\<close>) of the
  operation that makes the call.
\<close>

record mem_storage =
  users :: "user js_map"
  resumes :: "resume js_map"
  skills :: "skill js_map"
  jobs :: "job js_map"
  careerPaths :: "career_path js_map"
  courses :: "course js_map"
  activities :: "activity js_map"


definition createResume :: "string \<Rightarrow> int \<Rightarrow> insert_resume \<Rightarrow> mem_storage \<Rightarrow> resume \<times> mem_storage" where
  "createResume uid now insertResume st =
     (let r = \<lparr> resume_id = uid,
                resume_userId = ir_userId insertResume,
                resume_fileName = ir_fileName insertResume,
                resume_content = ir_content insertResume,
                resume_parsedData = obj_or_null (ir_parsedData insertResume),
                resume_score = num_or_null (ir_score insertResume),
                resume_uploadedAt = Some now \<rparr>
      in (r, st\<lparr> resumes := map_set uid r (resumes st) \<rparr>))"

definition getResumeByUserId :: "string \<Rightarrow> mem_storage \<Rightarrow> resume option" where
  "getResumeByUserId userId st =
     array_find (\<lambda>r. resume_userId r = userId) (map_values (resumes st))"

definition merge_resume :: "resume \<Rightarrow> resume_patch \<Rightarrow> resume" where
  "merge_resume r d =
     \<lparr> resume_id = (case rp_id d of None \<Rightarrow> resume_id r | Some v \<Rightarrow> v),
       resume_userId = (case rp_userId d of None \<Rightarrow> resume_userId r | Some v \<Rightarrow> v),
       resume_fileName = (case rp_fileName d of None \<Rightarrow> resume_fileName r | Some v \<Rightarrow> v),
       resume_content = (case rp_content d of None \<Rightarrow> resume_content r | Some v \<Rightarrow> v),
       resume_parsedData = (case rp_parsedData d of None \<Rightarrow> resume_parsedData r | Some v \<Rightarrow> v),
       resume_score = (case rp_score d of None \<Rightarrow> resume_score r | Some v \<Rightarrow> v),
       resume_uploadedAt = (case rp_uploadedAt d of None \<Rightarrow> resume_uploadedAt r | Some v \<Rightarrow> v) \<rparr>"

definition updateResume :: "string \<Rightarrow> resume_patch \<Rightarrow> mem_storage \<Rightarrow> resume option \<times> mem_storage" where
  "updateResume rid d st =
     (case map_get (resumes st) rid of
        None \<Rightarrow> (None, st)
      | Some r \<Rightarrow>
          (let updated = merge_resume r d
           in (Some updated, st\<lparr> resumes := map_set rid updated (resumes st) \<rparr>)))"

definition getSkillsByUserId :: "string \<Rightarrow> mem_storage \<Rightarrow> skill list" where
  "getSkillsByUserId userId st =
     filter (\<lambda>s. skill_userId s = userId) (map_values (skills st))"

definition createSkill :: "string \<Rightarrow> int \<Rightarrow> insert_skill \<Rightarrow> mem_storage \<Rightarrow> skill \<times> mem_storage" where
  "createSkill uid now insertSkill st =
     (let s = \<lparr> skill_id = uid,
                skill_userId = is_userId insertSkill,
                skill_name = is_name insertSkill,
                skill_level = is_level insertSkill,
                skill_category = is_category insertSkill,
                skill_isInDemand = bool_or_null (is_isInDemand insertSkill),
                skill_addedAt = Some now \<rparr>
      in (s, st\<lparr> skills := map_set uid s (skills st) \<rparr>))"

definition createJob :: "string \<Rightarrow> int \<Rightarrow> insert_job \<Rightarrow> mem_storage \<Rightarrow> job \<times> mem_storage" where
  "createJob uid now insertJob st =
     (let j = \<lparr> job_id = uid,
                job_title = ij_title insertJob,
                job_company = ij_company insertJob,
                job_location = ij_location insertJob,
                job_salary = str_or_null (ij_salary insertJob),
                job_description = ij_description insertJob,
                job_requirements = obj_or_null (ij_requirements insertJob),
                job_matchScore = num_or_null (ij_matchScore insertJob),
                job_postedAt = str_or_null (ij_postedAt insertJob),
                job_applyUrl = str_or_null (ij_applyUrl insertJob),
                job_fetchedAt = Some now \<rparr>
      in (j, st\<lparr> jobs := map_set uid j (jobs st) \<rparr>))"



definition createActivity :: "string \<Rightarrow> int \<Rightarrow> insert_activity \<Rightarrow> mem_storage \<Rightarrow> activity \<times> mem_storage" where
  "createActivity uid now insertActivity st =
     (let a = \<lparr> activity_id = uid,
                activity_userId = ia_userId insertActivity,
                activity_type = ia_type insertActivity,
                activity_description = ia_description insertActivity,
                activity_status = ia_status insertActivity,
                activity_createdAt = Some now \<rparr>
      in (a, st\<lparr> activities := map_set uid a (activities st) \<rparr>))"

text \<open>
  \<open>Array.prototype.sort\<close> with a comparator is stable: two elements the comparator
  does not order keep their order. For a comparator that is a difference of numeric
  keys the result is the one of a stable insertion sort, which places an element
  before the first element it does not have to follow (\<open>cmp x y \<le> 0\<close>).
\<close>

fun insert_by :: "('a \<Rightarrow> 'a \<Rightarrow> int) \<Rightarrow> 'a \<Rightarrow> 'a list \<Rightarrow> 'a list" where
  "insert_by cmp x [] = [x]"
| "insert_by cmp x (y # ys) = (if cmp x y \<le> 0 then x # y # ys else y # insert_by cmp x ys)"

fun array_sort :: "('a \<Rightarrow> 'a \<Rightarrow> int) \<Rightarrow> 'a list \<Rightarrow> 'a list" where
  "array_sort cmp [] = []"
| "array_sort cmp (x # xs) = insert_by cmp x (array_sort cmp xs)"

text \<open>\<open>String.prototype.includes\<close>: the argument occurs as a contiguous part.\<close>

fun starts_with :: "string \<Rightarrow> string \<Rightarrow> bool" where
  "starts_with s [] = True"
| "starts_with [] (c # t) = False"
| "starts_with (a # s) (c # t) = (a = c \<and> starts_with s t)"

fun str_includes :: "string \<Rightarrow> string \<Rightarrow> bool" where
  "str_includes [] t = (t = [])"
| "str_includes (a # s) t = (starts_with (a # s) t \<or> str_includes s t)"

record job_filters =
  location :: "string option"
  experience :: "string option"

text \<open>The comparator of both job queries: \<open>(b.matchScore || 0) - (a.matchScore || 0)\<close>.\<close>

definition cmp_matchScore :: "job \<Rightarrow> job \<Rightarrow> int" where
  "cmp_matchScore a b = num_or_zero (job_matchScore b) - num_or_zero (job_matchScore a)"

text \<open>
  \<open>getJobs\<close>: the location filter applies when \<open>filters\<close> is given, its \<open>location\<close>
  is truthy (present and not empty) and differs from \<open>'All Locations'\<close>; \<open>experience\<close>
  is never read.
\<close>

definition getJobs :: "job_filters option \<Rightarrow> mem_storage \<Rightarrow> job list" where
  "getJobs filters st =
     (let js = map_values (jobs st);
          js' = (case filters of
                   None \<Rightarrow> js
                 | Some f \<Rightarrow>
                     (case location f of
                        None \<Rightarrow> js
                      | Some loc \<Rightarrow>
                          if loc \<noteq> [] \<and> loc \<noteq> ''All Locations''
                          then filter (\<lambda>j. str_includes (job_location j) loc) js
                          else js))
      in array_sort cmp_matchScore js')"

definition getJobsByMatchScore :: "int \<Rightarrow> mem_storage \<Rightarrow> job list" where
  "getJobsByMatchScore minScore st =
     array_sort cmp_matchScore
       (filter (\<lambda>j. num_or_zero (job_matchScore j) \<ge> minScore) (map_values (jobs st)))"

text \<open>\<open>new Date(d).getTime()\<close>: the milliseconds of a date; \<open>new Date(null)\<close> is the epoch.\<close>

definition date_getTime :: "int option \<Rightarrow> int" where
  "date_getTime d = (case d of None \<Rightarrow> 0 | Some t \<Rightarrow> t)"

definition cmp_createdAt :: "activity \<Rightarrow> activity \<Rightarrow> int" where
  "cmp_createdAt a b = date_getTime (activity_createdAt b) - date_getTime (activity_createdAt a)"

definition getActivitiesByUserId :: "string \<Rightarrow> mem_storage \<Rightarrow> activity list" where
  "getActivitiesByUserId userId st =
     array_sort cmp_createdAt
       (filter (\<lambda>a. activity_userId a = userId) (map_values (activities st)))"

text \<open>
  The constructor calls \<open>initializeSampleData\<close> on the seven empty maps: the default
  user, four skills and two courses, each skill and course with a fresh identifier.
  \<open>uuid k\<close> is what call number \<open>k\<close> of \<open>randomUUID()\<close> returns and \<open>clock k\<close> what
  call number \<open>k\<close> of \<open>new Date()\<close> returns.
\<close>

definition empty_storage :: mem_storage where
  "empty_storage =
     \<lparr> users = [], resumes = [], skills = [], jobs = [], careerPaths = [], courses = [],
       activities = [] \<rparr>"

definition sample_skill :: "string \<Rightarrow> int \<Rightarrow> string \<Rightarrow> string \<Rightarrow> string \<Rightarrow> skill" where
  "sample_skill uid now name level category =
     \<lparr> skill_id = uid, skill_userId = ''default-user'', skill_name = name,
       skill_level = level, skill_category = category, skill_isInDemand = Some True,
       skill_addedAt = Some now \<rparr>"

definition initializeSampleData :: "(nat \<Rightarrow> string) \<Rightarrow> (nat \<Rightarrow> int) \<Rightarrow> mem_storage" where
  "initializeSampleData uuid clock =
     (let defaultUser =
            \<lparr> user_id = ''default-user'', user_username = ''alex'',
              user_password = ''password'', user_name = Some ''Alex Rodriguez'',
              user_email = Some ''alex.rodriguez@email.com'',
              user_phone = Some ''+1 (555) 123-4567'', user_createdAt = Some (clock 0) \<rparr>;
          s0 = sample_skill (uuid 0) (clock 1) ''JavaScript'' ''expert'' ''Programming'';
          s1 = sample_skill (uuid 1) (clock 2) ''Python'' ''advanced'' ''Programming'';
          s2 = sample_skill (uuid 2) (clock 3) ''React'' ''intermediate'' ''Frontend'';
          s3 = sample_skill (uuid 3) (clock 4) ''Node.js'' ''beginner'' ''Backend'';
          c0 = \<lparr> course_id = uuid 4,
                 course_title = ''Complete Web Development Bootcamp'',
                 course_description =
                   ''Learn HTML, CSS, JavaScript, React, Node.js and build real-world projects.'',
                 course_provider = ''Coursera'', course_duration = Some ''40 hours'',
                 course_level = Some ''Beginner'', course_rating = Some ''4.8 (12.5k)'',
                 course_imageUrl = Some ''https://images.unsplash.com/photo-1555066931-4365d14bab8c?ixlib=rb-4.0.3&auto=format&fit=crop&w=800&h=200'',
                 course_courseUrl = ''https://coursera.org/web-development'',
                 course_isFree = Some True, course_category = Some ''Programming'',
                 course_addedAt = Some (clock 5) \<rparr>;
          c1 = \<lparr> course_id = uuid 5,
                 course_title = ''AWS Cloud Practitioner'',
                 course_description =
                   ''Learn cloud fundamentals and prepare for AWS certification.'',
                 course_provider = ''edX'', course_duration = Some ''20 hours'',
                 course_level = Some ''Intermediate'', course_rating = Some ''4.6 (8.2k)'',
                 course_imageUrl = Some ''https://images.unsplash.com/photo-1451187580459-43490279c0fa?ixlib=rb-4.0.3&auto=format&fit=crop&w=800&h=200'',
                 course_courseUrl = ''https://edx.org/aws-cloud'',
                 course_isFree = Some True, course_category = Some ''Cloud'',
                 course_addedAt = Some (clock 6) \<rparr>
      in empty_storage
           \<lparr> users := map_set (user_id defaultUser) defaultUser [],
             skills := map_set (skill_id s3) s3 (map_set (skill_id s2) s2
                         (map_set (skill_id s1) s1 (map_set (skill_id s0) s0 []))),
             courses := map_set (course_id c1) c1 (map_set (course_id c0) c0 []) \<rparr>)"


section \<open>The routes\<close>

text \<open>
  A handler answers once: \<open>Json n b\<close> is \<open>res.status(n).json(b)\<close> (\<open>res.json(b)\<close> has
  status 200) and \<open>Error n msg\<close> is \<open>res.status(n).json({ error: msg })\<close>.
\<close>

datatype 'b response = Json nat 'b | Error nat string

fun status :: "'b response \<Rightarrow> nat" where
  "status (Json n b) = n"
| "status (Error n msg) = n"

definition defaultUserId :: string where
  "defaultUserId = ''default-user''"

text \<open>
  A job object as the collaborator sends it and as the fallback list has it, and the
  object the collaborator's answer parses to. The answer is untyped in the source; the
  keys the routes read are typed here as the collaborator boundary declares them, and a
  key that may be missing is an option. \<open>py_success\<close> is the truthiness of \<open>success\<close>
  (a missing key is falsy). \<open>py_content\<close> is read on the success branch only.
\<close>

record job_data =
  jd_id :: "string option"
  jd_title :: string
  jd_company :: string
  jd_location :: string
  jd_description :: string
  jd_requirements :: "string list option"
  jd_salary :: "string option"
  jd_applyUrl :: "string option"
  jd_postedAt :: "string option"
  jd_matchScore :: "int option"

record py_data =
  py_success :: bool
  py_error :: "string option"
  py_content :: string
  py_parsedData :: "parsed_data option"
  py_score :: "int option"
  py_message :: "string option"
  py_jobs :: "job_data list option"
  py_source :: "string option"

text \<open>
  The \<open>axios\<close> call is the environment's: it resolves with \<open>response.data\<close>, which is
  what the body parses to (\<open>None\<close> when that is \<open>null\<close>), or it rejects with an error
  message (a network error, a status outside 2xx, the 30 s timeout).
  \<open>callPythonService\<close> returns the data, or the object
  \<open>{ success: false, error: error.message }\<close> when the call rejects.
\<close>

datatype axios_outcome = Resolved "py_data option" | Rejected string

fun callPythonService :: "axios_outcome \<Rightarrow> py_data option" where
  "callPythonService (Resolved d) = d"
| "callPythonService (Rejected msg) =
     Some \<lparr> py_success = False, py_error = Some msg, py_content = [], py_parsedData = None,
            py_score = None, py_message = None, py_jobs = None, py_source = None \<rparr>"

definition fallbackJobs :: "job_data list" where
  "fallbackJobs =
     [ \<lparr> jd_id = Some ''job-1'', jd_title = ''Full Stack Developer'', jd_company = ''TechCorp'',
         jd_location = ''Remote'',
         jd_description =
           ''Looking for a full stack developer with React, Node.js, and Python experience.'',
         jd_requirements = Some [''React'', ''Node.js'', ''Python'', ''SQL'', ''Git''],
         jd_salary = Some ''$80,000 - $120,000'',
         jd_applyUrl = Some ''https://example.com/apply'',
         jd_postedAt = Some ''2025-01-20'', jd_matchScore = Some 85 \<rparr>,
       \<lparr> jd_id = Some ''job-2'', jd_title = ''Frontend Developer'', jd_company = ''WebStudio'',
         jd_location = ''Remote'',
         jd_description =
           ''Frontend developer needed for modern React applications with TypeScript.'',
         jd_requirements = Some [''React'', ''TypeScript'', ''HTML'', ''CSS'', ''JavaScript''],
         jd_salary = Some ''$70,000 - $100,000'',
         jd_applyUrl = Some ''https://example.com/apply2'',
         jd_postedAt = Some ''2025-01-19'', jd_matchScore = Some 78 \<rparr>,
       \<lparr> jd_id = Some ''job-3'', jd_title = ''Python Developer'', jd_company = ''DataTech'',
         jd_location = ''Remote'',
         jd_description = ''Python developer for data processing and web applications.'',
         jd_requirements = Some [''Python'', ''Django'', ''PostgreSQL'', ''Docker''],
         jd_salary = Some ''$75,000 - $110,000'',
         jd_applyUrl = Some ''https://example.com/apply3'',
         jd_postedAt = Some ''2025-01-18'', jd_matchScore = Some 72 \<rparr> ]"

subsection \<open>GET /api/dashboard/stats\<close>

record stats_body =
  resumeScore :: int
  skillMatches :: nat
  jobRecommendations :: nat

text \<open>No operation of \<open>MemStorage\<close> throws, so the handler's \<open>catch\<close> is never entered.\<close>

definition get_api_dashboard_stats :: "mem_storage \<Rightarrow> stats_body response" where
  "get_api_dashboard_stats st =
     (let resume = getResumeByUserId defaultUserId st;
          userSkills = getSkillsByUserId defaultUserId st;
          allJobs = getJobs None st
      in Json 200
           \<lparr> resumeScore = num_or_zero (case resume of None \<Rightarrow> None | Some r \<Rightarrow> resume_score r),
             skillMatches = length userSkills,
             jobRecommendations = (if length allJobs = 0 then 3 else length allJobs) \<rparr>)"

subsection \<open>GET /api/activities and POST /api/activities\<close>

definition get_api_activities :: "mem_storage \<Rightarrow> activity list response" where
  "get_api_activities st = Json 200 (getActivitiesByUserId defaultUserId st)"

text \<open>
  The request body is a JSON value, or \<open>undefined\<close> (\<open>None\<close>) when none was parsed.
  \<open>insertActivitySchema\<close> is the insert schema of the table without \<open>id\<close> and
  \<open>createdAt\<close>: an object whose keys \<open>userId\<close>, \<open>type\<close>, \<open>description\<close> and
  \<open>status\<close> (the \<open>notNull\<close> text columns without a default) are strings. A successful
  parse returns these four keys and drops every other key.
\<close>

datatype json =
    JNull
  | JBool bool
  | JNum int
  | JStr string
  | JArr "json list"
  | JObj "(string \<times> json) list"

definition get_string :: "(string \<times> json) list \<Rightarrow> string \<Rightarrow> string option" where
  "get_string kvs k = (case map_of kvs k of Some (JStr s) \<Rightarrow> Some s | _ \<Rightarrow> None)"

definition insertActivitySchema_safeParse :: "json option \<Rightarrow> insert_activity option" where
  "insertActivitySchema_safeParse body =
     (case body of
        Some (JObj kvs) \<Rightarrow>
          (case (get_string kvs ''userId'', get_string kvs ''type'',
                 get_string kvs ''description'', get_string kvs ''status'') of
             (Some u, Some t, Some d, Some s) \<Rightarrow>
               Some \<lparr> ia_userId = u, ia_type = t, ia_description = d, ia_status = s \<rparr>
           | _ \<Rightarrow> None)
      | _ \<Rightarrow> None)"

definition post_api_activities ::
  "string \<Rightarrow> int \<Rightarrow> json option \<Rightarrow> mem_storage \<Rightarrow> activity response \<times> mem_storage" where
  "post_api_activities uid now body st =
     (case insertActivitySchema_safeParse body of
        None \<Rightarrow> (Error 400 ''Invalid activity data'', st)
      | Some data \<Rightarrow>
          (let (activity, st') = createActivity uid now (data\<lparr> ia_userId := defaultUserId \<rparr>) st
           in (Json 200 activity, st')))"

subsection \<open>POST /api/resume/upload\<close>

text \<open>
  \<open>req.file\<close> is the file the upload middleware stored, or \<open>undefined\<close>. The temporary
  files are a map from paths to contents. \<open>readFile\<close> and \<open>unlinkSync\<close> throw when
  there is no file at the path (\<open>None\<close>).
\<close>

record multer_file =
  originalname :: string
  mimetype :: string
  path :: string

type_synonym files = "string \<rightharpoonup> string"

definition readFile :: "files \<Rightarrow> string \<Rightarrow> string option" where
  "readFile fs p = fs p"

definition unlinkSync :: "files \<Rightarrow> string \<Rightarrow> files option" where
  "unlinkSync fs p = (case fs p of None \<Rightarrow> None | Some c \<Rightarrow> Some (fs(p := None)))"

record upload_body =
  ub_success :: bool
  ub_resume :: resume
  ub_message :: "string option"
  ub_extractedSkills :: nat

definition fallbackData :: parsed_data where
  "fallbackData =
     \<lparr> pd_name = ''User'', pd_email = [], pd_mobile_number = [],
       pd_skills = Some [''JavaScript'', ''HTML'', ''CSS''],
       pd_education = [], pd_experience = [], pd_total_experience = 0 \<rparr>"

text \<open>The loop over the extracted skills; call number \<open>k\<close> of the identifier and clock
  sources is the next one.\<close>

fun create_skills ::
  "(nat \<Rightarrow> string) \<Rightarrow> (nat \<Rightarrow> int) \<Rightarrow> nat \<Rightarrow> string list \<Rightarrow> mem_storage \<Rightarrow> mem_storage" where
  "create_skills uuid clock k [] st = st"
| "create_skills uuid clock k (skillName # rest) st =
     create_skills uuid clock (Suc k) rest
       (snd (createSkill (uuid k) (clock k)
               \<lparr> is_userId = defaultUserId, is_name = skillName, is_level = ''intermediate'',
                 is_category = ''technical'', is_isInDemand = Some True \<rparr> st))"

text \<open>
  After the answer is sent the handler logs the activity and deletes the temporary
  file. \<open>unlinkSync\<close> throwing there is caught by the handler's \<open>catch\<close>, which cannot
  answer a second time; the files stay as they are.
\<close>

definition log_and_cleanup ::
  "string \<Rightarrow> int \<Rightarrow> multer_file \<Rightarrow> mem_storage \<Rightarrow> files \<Rightarrow> mem_storage \<times> files" where
  "log_and_cleanup uid now file st fs =
     (let st' = snd (createActivity uid now
                       \<lparr> ia_userId = defaultUserId, ia_type = ''resume_upload'',
                         ia_description = ''Uploaded and analyzed resume: '' @ originalname file,
                         ia_status = ''completed'' \<rparr> st)
      in (st', case unlinkSync fs (path file) of None \<Rightarrow> fs | Some fs' \<Rightarrow> fs'))"

text \<open>The handler's \<open>catch\<close>: status 500 with \<open>error.message || "Failed to process resume"\<close>.\<close>

definition upload_catch :: "string \<Rightarrow> upload_body response" where
  "upload_catch msg = Error 500 (if msg = [] then ''Failed to process resume'' else msg)"

definition post_api_resume_upload ::
  "(nat \<Rightarrow> string) \<Rightarrow> (nat \<Rightarrow> int) \<Rightarrow> axios_outcome \<Rightarrow> multer_file option \<Rightarrow>
   mem_storage \<Rightarrow> files \<Rightarrow> upload_body response \<times> mem_storage \<times> files" where
  "post_api_resume_upload uuid clock outcome req_file st fs =
     (case req_file of
        None \<Rightarrow> (Error 400 ''No file uploaded'', st, fs)
      | Some file \<Rightarrow>
          (case callPythonService outcome of
             None \<Rightarrow>
               (upload_catch ''Cannot read properties of null (reading 'success')'', st, fs)
           | Some pythonResponse \<Rightarrow>
               if \<not> py_success pythonResponse then
                 (case readFile fs (path file) of
                    None \<Rightarrow>
                      (upload_catch (''ENOENT: no such file or directory, open '' @ [CHR 0x27] @ path file @ [CHR 0x27]),
                       st, fs)
                  | Some content \<Rightarrow>
                      (let (resume, st1) =
                             createResume (uuid 0) (clock 0)
                               \<lparr> ir_userId = defaultUserId, ir_fileName = originalname file,
                                 ir_content = content, ir_parsedData = Some fallbackData,
                                 ir_score = Some 65 \<rparr> st;
                           res = Json 200
                                   \<lparr> ub_success = True, ub_resume = resume,
                                     ub_message = Some ''Resume uploaded (basic parsing - Python service unavailable)'',
                                     ub_extractedSkills =
                                       (case pd_skills fallbackData of None \<Rightarrow> 0 | Some xs \<Rightarrow> length xs) \<rparr>;
                           (st2, fs') = log_and_cleanup (uuid 1) (clock 1) file st1 fs
                       in (res, st2, fs')))
               else
                 (let resumeData =
                        \<lparr> ir_userId = defaultUserId, ir_fileName = originalname file,
                          ir_content = py_content pythonResponse,
                          ir_parsedData = py_parsedData pythonResponse,
                          ir_score = py_score pythonResponse \<rparr>;
                      (resume, st1) = createResume (uuid 0) (clock 0) resumeData st;
                      extractedSkills =
                        (case py_parsedData pythonResponse of
                           None \<Rightarrow> []
                         | Some pd \<Rightarrow> (case pd_skills pd of None \<Rightarrow> [] | Some xs \<Rightarrow> xs));
                      st2 = create_skills uuid clock 1 extractedSkills st1;
                      res = Json 200
                              \<lparr> ub_success = True, ub_resume = resume,
                                ub_message = py_message pythonResponse,
                                ub_extractedSkills = length extractedSkills \<rparr>;
                      n = length extractedSkills;
                      (st3, fs') = log_and_cleanup (uuid (Suc n)) (clock (Suc n)) file st2 fs
                  in (res, st3, fs'))))"

subsection \<open>GET /api/jobs\<close>

record jobs_body =
  jb_success :: bool
  jb_jobs :: "job_data list"
  jb_source :: "string option"
  jb_message :: "string option"

fun store_jobs ::
  "(nat \<Rightarrow> string) \<Rightarrow> (nat \<Rightarrow> int) \<Rightarrow> nat \<Rightarrow> job_data list \<Rightarrow> mem_storage \<Rightarrow> mem_storage" where
  "store_jobs uuid clock k [] st = st"
| "store_jobs uuid clock k (jobData # rest) st =
     store_jobs uuid clock (Suc k) rest
       (snd (createJob (uuid k) (clock k)
               \<lparr> ij_title = jd_title jobData, ij_company = jd_company jobData,
                 ij_location = jd_location jobData, ij_salary = jd_salary jobData,
                 ij_description = jd_description jobData,
                 ij_requirements = jd_requirements jobData,
                 ij_matchScore = jd_matchScore jobData, ij_postedAt = jd_postedAt jobData,
                 ij_applyUrl = jd_applyUrl jobData \<rparr> st))"

text \<open>
  The handler reads the default user's skill names only to build the query string of
  the collaborator call, whose outcome is the argument. Reading \<open>success\<close> of a \<open>null\<close>
  answer and calling \<open>slice\<close> on a missing \<open>jobs\<close> throw; the handler's \<open>catch\<close> then
  answers with the fallback list.
\<close>

definition jobs_catch :: jobs_body where
  "jobs_catch =
     \<lparr> jb_success = True, jb_jobs = fallbackJobs, jb_source = Some ''fallback_data'',
       jb_message = Some ''Error occurred - Using fallback data'' \<rparr>"

definition get_api_jobs ::
  "(nat \<Rightarrow> string) \<Rightarrow> (nat \<Rightarrow> int) \<Rightarrow> axios_outcome \<Rightarrow> mem_storage \<Rightarrow>
   jobs_body response \<times> mem_storage" where
  "get_api_jobs uuid clock outcome st =
     (case callPythonService outcome of
        None \<Rightarrow> (Json 200 jobs_catch, st)
      | Some pythonResponse \<Rightarrow>
          if py_success pythonResponse then
            (case py_jobs pythonResponse of
               None \<Rightarrow> (Json 200 jobs_catch, st)
             | Some js \<Rightarrow>
                 (Json 200
                    \<lparr> jb_success = True, jb_jobs = js, jb_source = py_source pythonResponse,
                      jb_message = py_message pythonResponse \<rparr>,
                  store_jobs uuid clock 0 (take 10 js) st))
          else
            (Json 200
               \<lparr> jb_success = True, jb_jobs = fallbackJobs, jb_source = Some ''fallback_data'',
                 jb_message = Some ''Using fallback data - External job API unavailable'' \<rparr>,
             st))"

section \<open>Example inputs\<close>

text \<open>Concrete identifier and clock sources, used where a property is evaluated.\<close>

definition example_uuid :: "nat \<Rightarrow> string" where
  "example_uuid k = ''id-'' @ replicate k (CHR ''x'')"

definition example_clock :: "nat \<Rightarrow> int" where
  "example_clock k = 1000 + int k"

text \<open>A resume inserted with score 0, a patch that names only \<open>score\<close>, with value 0,
  a job inserted with \<open>matchScore\<close> 0 and a skill inserted with \<open>isInDemand\<close> false.\<close>

definition example_insert_resume :: insert_resume where
  "example_insert_resume =
     \<lparr> ir_userId = ''default-user'', ir_fileName = ''cv.txt'', ir_content = ''hello'',
       ir_parsedData = None, ir_score = Some 0 \<rparr>"

definition example_patch :: resume_patch where
  "example_patch =
     \<lparr> rp_id = None, rp_userId = None, rp_fileName = None, rp_content = None,
       rp_parsedData = None, rp_score = Some (Some 0), rp_uploadedAt = None \<rparr>"

definition example_insert_job :: insert_job where
  "example_insert_job =
     \<lparr> ij_title = ''Developer'', ij_company = ''Acme'', ij_location = ''Remote'',
       ij_salary = None, ij_description = ''Writes code'', ij_requirements = None,
       ij_matchScore = Some 0, ij_postedAt = None, ij_applyUrl = None \<rparr>"


definition example_resume :: resume where
  "example_resume = fst (createResume ''r1'' 5 example_insert_resume empty_storage)"

definition example_resume_store :: mem_storage where
  "example_resume_store = snd (createResume ''r1'' 5 example_insert_resume empty_storage)"

definition example_job_store :: mem_storage where
  "example_job_store =
     snd (createJob ''j1'' 5 example_insert_job (initializeSampleData example_uuid example_clock))"


section \<open>The vocabulary of the claims about the collaborator\<close>

text \<open>
  The collaborator call has failed when the request was rejected (an error, a status
  outside 2xx, the timeout) or when the answer's \<open>success\<close> is falsy. The handler of
  \<open>GET /api/jobs\<close> throws when the answer is \<open>null\<close>, or reports success without a
  \<open>jobs\<close> list.
\<close>

definition call_failed :: "axios_outcome \<Rightarrow> bool" where
  "call_failed outcome =
     (case outcome of
        Rejected msg \<Rightarrow> True
      | Resolved None \<Rightarrow> False
      | Resolved (Some d) \<Rightarrow> \<not> py_success d)"

definition jobs_handler_throws :: "axios_outcome \<Rightarrow> bool" where
  "jobs_handler_throws outcome =
     (case outcome of
        Rejected msg \<Rightarrow> False
      | Resolved None \<Rightarrow> True
      | Resolved (Some d) \<Rightarrow> py_success d \<and> py_jobs d = None)"

text \<open>An uploaded file and the temporary files that hold it; answers of the collaborator:
  a parse with score 0 and two skills, a job search with no job, a job search without
  the \<open>jobs\<close> key.\<close>

definition example_file :: multer_file where
  "example_file = \<lparr> originalname = ''cv.txt'', mimetype = ''text/plain'', path = ''uploads/abc'' \<rparr>"

definition example_files :: files where
  "example_files = [''uploads/abc'' \<mapsto> ''hello'']"

definition example_parse_zero :: py_data where
  "example_parse_zero =
     \<lparr> py_success = True, py_error = None, py_content = ''text of the resume'',
       py_parsedData = Some (fallbackData\<lparr> pd_skills := Some [''Python'', ''SQL''] \<rparr>),
       py_score = Some 0, py_message = Some ''Resume parsed'', py_jobs = None,
       py_source = None \<rparr>"

definition example_no_jobs :: py_data where
  "example_no_jobs =
     \<lparr> py_success = True, py_error = None, py_content = [], py_parsedData = None,
       py_score = None, py_message = Some ''No jobs found'', py_jobs = Some [],
       py_source = Some ''remotive_api'' \<rparr>"

definition example_missing_jobs :: py_data where
  "example_missing_jobs =
     \<lparr> py_success = True, py_error = None, py_content = [], py_parsedData = None,
       py_score = None, py_message = None, py_jobs = None, py_source = Some ''remotive_api'' \<rparr>"

text \<open>An activity of user \<open>u\<close>, a store that holds it with timestamp 1000, and a request
  body that names another user.\<close>

definition example_insert_activity :: insert_activity where
  "example_insert_activity =
     \<lparr> ia_userId = ''u'', ia_type = ''note'', ia_description = ''first'', ia_status = ''new'' \<rparr>"

definition example_activity_store :: mem_storage where
  "example_activity_store = snd (createActivity ''a1'' 1000 example_insert_activity empty_storage)"

definition example_body :: json where
  "example_body =
     JObj [(''userId'', JStr ''mallory''), (''type'', JStr ''note''),
           (''description'', JStr ''hello''), (''status'', JStr ''new'')]"

section \<open>The maps and the sort\<close>

lemma map_get_map_set_same: "map_get (map_set k v m) k = Some v"
  by (induction m) (auto simp: map_get_def)

lemma map_get_map_set_other: "k' \<noteq> k \<Longrightarrow> map_get (map_set k v m) k' = map_get m k'"
  by (induction m) (auto simp: map_get_def)

lemma map_set_fresh: "map_get m k = None \<Longrightarrow> map_set k v m = m @ [(k, v)]"
  by (induction m) (auto simp: map_get_def split: if_splits)

lemma set_map_set: "set (map_set k v m) \<subseteq> insert (k, v) (set m)"
  by (induction m) (auto split: if_splits)

lemma set_map_values_map_set:
  "set (map_values (map_set k v m)) \<subseteq> insert v (set (map_values m))"
  using set_map_set[of k v m] by (force simp: map_values_def)

lemma mset_insert_by: "mset (insert_by cmp x ys) = add_mset x (mset ys)"
  by (induction ys) auto

lemma mset_array_sort: "mset (array_sort cmp xs) = mset xs"
  by (induction xs) (auto simp: mset_insert_by)

lemma set_insert_by: "set (insert_by cmp x ys) = insert x (set ys)"
  by (induction ys) auto

text \<open>A comparator that is the difference of a key sorts by that key, descending.\<close>

lemma sorted_insert_by:
  assumes "\<And>a b. cmp a b = key b - key a"
  shows "sorted_wrt (\<lambda>a b. key b \<le> key a) ys \<Longrightarrow>
         sorted_wrt (\<lambda>a b. (key b :: int) \<le> key a) (insert_by cmp x ys)"
proof (induction ys)
  case Nil
  then show ?case by simp
next
  case (Cons y ys)
  show ?case
  proof (cases "cmp x y \<le> 0")
    case True
    then have "key y \<le> key x" using assms[of x y] by simp
    moreover have "\<forall>z\<in>set ys. key z \<le> key y" using Cons.prems by simp
    ultimately show ?thesis using True Cons.prems by force
  next
    case False
    then have "key x \<le> key y" using assms[of x y] by simp
    then show ?thesis using False Cons by (auto simp: set_insert_by)
  qed
qed

lemma sorted_array_sort:
  assumes "\<And>a b. cmp a b = key b - key a"
  shows "sorted_wrt (\<lambda>a b. (key b :: int) \<le> key a) (array_sort cmp xs)"
  by (induction xs) (auto intro: sorted_insert_by[OF assms])

text \<open>An element appended last whose key is strictly the largest is sorted to the front,
  and the rest is sorted as before.\<close>

lemma array_sort_snoc_newest:
  assumes "\<And>a b. cmp a b = key b - key a"
  shows "\<forall>y\<in>set xs. (key y :: int) < key x \<Longrightarrow>
         array_sort cmp (xs @ [x]) = x # array_sort cmp xs"
proof (induction xs)
  case Nil
  then show ?case by simp
next
  case (Cons y ys)
  then have "cmp y x > 0" using assms[of y x] by simp
  then show ?case using Cons by simp
qed

section \<open>The job queries\<close>

text \<open>
  C6. For every store state, every filter and every \<open>minScore\<close>, the lists returned by
  \<open>getJobs\<close> and \<open>getJobsByMatchScore\<close> are sorted by \<open>matchScore\<close> in descending
  order, an absent \<open>matchScore\<close> counting as 0, and \<open>getJobsByMatchScore\<close> returns
  exactly the stored jobs whose \<open>matchScore\<close> (absent counting as 0) is at least
  \<open>minScore\<close>, each as often as it is stored.
\<close>

theorem jobs_sorted_by_matchScore:
  "sorted_wrt (\<lambda>a b. num_or_zero (job_matchScore b) \<le> num_or_zero (job_matchScore a))
     (getJobs filters st)
   \<and> sorted_wrt (\<lambda>a b. num_or_zero (job_matchScore b) \<le> num_or_zero (job_matchScore a))
       (getJobsByMatchScore minScore st)
   \<and> mset (getJobsByMatchScore minScore st) =
       mset (filter (\<lambda>j. minScore \<le> num_or_zero (job_matchScore j)) (map_values (jobs st)))"
proof -
  have c: "\<And>a b. cmp_matchScore a b =
             num_or_zero (job_matchScore b) - num_or_zero (job_matchScore a)"
    by (simp add: cmp_matchScore_def)
  have s: "\<And>xs. sorted_wrt
             (\<lambda>a b. num_or_zero (job_matchScore b) \<le> num_or_zero (job_matchScore a))
             (array_sort cmp_matchScore xs)"
    by (rule sorted_array_sort[OF c])
  have 1: "sorted_wrt (\<lambda>a b. num_or_zero (job_matchScore b) \<le> num_or_zero (job_matchScore a))
             (getJobs filters st)"
    unfolding getJobs_def Let_def by (rule s)
  have 2: "sorted_wrt (\<lambda>a b. num_or_zero (job_matchScore b) \<le> num_or_zero (job_matchScore a))
             (getJobsByMatchScore minScore st)"
    unfolding getJobsByMatchScore_def by (rule s)
  have 3: "mset (getJobsByMatchScore minScore st) =
             mset (filter (\<lambda>j. minScore \<le> num_or_zero (job_matchScore j))
                     (map_values (jobs st)))"
    unfolding getJobsByMatchScore_def by (simp add: mset_array_sort)
  from 1 2 3 show ?thesis by blast
qed

section \<open>The resume update\<close>

text \<open>
  C8. For every store state, patch and identifier: when the identifier names no stored
  resume, \<open>updateResume\<close> returns \<open>undefined\<close> and leaves the store unchanged;
  otherwise it returns a resume, stores it under the identifier and changes nothing
  else, and in that resume every field the patch names has the patch's value and every
  field the patch does not name keeps its previous value.
\<close>

theorem updateResume_merges_patch:
  "(map_get (resumes st) rid = None \<longrightarrow> updateResume rid d st = (None, st))
   \<and> (\<forall>r. map_get (resumes st) rid = Some r \<longrightarrow>
        (\<exists>u. updateResume rid d st = (Some u, st\<lparr> resumes := map_set rid u (resumes st) \<rparr>)
           \<and> map_get (resumes (snd (updateResume rid d st))) rid = Some u
           \<and> (\<forall>v. rp_id d = Some v \<longrightarrow> resume_id u = v)
           \<and> (rp_id d = None \<longrightarrow> resume_id u = resume_id r)
           \<and> (\<forall>v. rp_userId d = Some v \<longrightarrow> resume_userId u = v)
           \<and> (rp_userId d = None \<longrightarrow> resume_userId u = resume_userId r)
           \<and> (\<forall>v. rp_fileName d = Some v \<longrightarrow> resume_fileName u = v)
           \<and> (rp_fileName d = None \<longrightarrow> resume_fileName u = resume_fileName r)
           \<and> (\<forall>v. rp_content d = Some v \<longrightarrow> resume_content u = v)
           \<and> (rp_content d = None \<longrightarrow> resume_content u = resume_content r)
           \<and> (\<forall>v. rp_parsedData d = Some v \<longrightarrow> resume_parsedData u = v)
           \<and> (rp_parsedData d = None \<longrightarrow> resume_parsedData u = resume_parsedData r)
           \<and> (\<forall>v. rp_score d = Some v \<longrightarrow> resume_score u = v)
           \<and> (rp_score d = None \<longrightarrow> resume_score u = resume_score r)
           \<and> (\<forall>v. rp_uploadedAt d = Some v \<longrightarrow> resume_uploadedAt u = v)
           \<and> (rp_uploadedAt d = None \<longrightarrow> resume_uploadedAt u = resume_uploadedAt r)))"
proof (intro conjI allI impI)
  assume "map_get (resumes st) rid = None"
  then show "updateResume rid d st = (None, st)" by (simp add: updateResume_def Let_def)
next
  fix r assume r: "map_get (resumes st) rid = Some r"
  have 1: "updateResume rid d st =
    (Some (merge_resume r d), st\<lparr> resumes := map_set rid (merge_resume r d) (resumes st) \<rparr>)"
    using r by (simp add: updateResume_def Let_def)
  have 2: "map_get (resumes (snd (updateResume rid d st))) rid = Some (merge_resume r d)"
    by (simp add: 1 map_get_map_set_same Let_def)
  show "\<exists>u. updateResume rid d st = (Some u, st\<lparr> resumes := map_set rid u (resumes st) \<rparr>)
           \<and> map_get (resumes (snd (updateResume rid d st))) rid = Some u
           \<and> (\<forall>v. rp_id d = Some v \<longrightarrow> resume_id u = v)
           \<and> (rp_id d = None \<longrightarrow> resume_id u = resume_id r)
           \<and> (\<forall>v. rp_userId d = Some v \<longrightarrow> resume_userId u = v)
           \<and> (rp_userId d = None \<longrightarrow> resume_userId u = resume_userId r)
           \<and> (\<forall>v. rp_fileName d = Some v \<longrightarrow> resume_fileName u = v)
           \<and> (rp_fileName d = None \<longrightarrow> resume_fileName u = resume_fileName r)
           \<and> (\<forall>v. rp_content d = Some v \<longrightarrow> resume_content u = v)
           \<and> (rp_content d = None \<longrightarrow> resume_content u = resume_content r)
           \<and> (\<forall>v. rp_parsedData d = Some v \<longrightarrow> resume_parsedData u = v)
           \<and> (rp_parsedData d = None \<longrightarrow> resume_parsedData u = resume_parsedData r)
           \<and> (\<forall>v. rp_score d = Some v \<longrightarrow> resume_score u = v)
           \<and> (rp_score d = None \<longrightarrow> resume_score u = resume_score r)
           \<and> (\<forall>v. rp_uploadedAt d = Some v \<longrightarrow> resume_uploadedAt u = v)
           \<and> (rp_uploadedAt d = None \<longrightarrow> resume_uploadedAt u = resume_uploadedAt r)"
    by (rule exI[of _ "merge_resume r d"])
       (simp add: 1 map_get_map_set_same, simp add: merge_resume_def)
qed

theorem updateResume_merges_patch_witness:
  "updateResume ''r9'' example_patch example_resume_store = (None, example_resume_store)
   \<and> (\<exists>u. map_get (resumes (snd (updateResume ''r1'' example_patch example_resume_store))) ''r1''
            = Some u
          \<and> resume_score u = Some 0 \<and> resume_fileName u = ''cv.txt'')"
proof -
  have n: "map_get (resumes example_resume_store) ''r9'' = None"
    by (simp add: example_resume_store_def createResume_def empty_storage_def map_get_def Let_def)
  have s: "map_get (resumes example_resume_store) ''r1'' = Some example_resume"
    by (simp add: example_resume_store_def example_resume_def createResume_def
        empty_storage_def map_get_def Let_def)
  have p: "rp_score example_patch = Some (Some 0)" "rp_fileName example_patch = None"
    by (simp_all add: example_patch_def Let_def)
  have f: "resume_fileName example_resume = ''cv.txt''"
    by (simp add: example_resume_def createResume_def example_insert_resume_def Let_def)
  from updateResume_merges_patch[of example_resume_store "''r9''" example_patch] n
  have 1: "updateResume ''r9'' example_patch example_resume_store = (None, example_resume_store)"
    by blast
  have "\<exists>u. map_get (resumes (snd (updateResume ''r1'' example_patch example_resume_store))) ''r1''
               = Some u
             \<and> (\<forall>v. rp_score example_patch = Some v \<longrightarrow> resume_score u = v)
             \<and> (rp_fileName example_patch = None \<longrightarrow>
                  resume_fileName u = resume_fileName example_resume)"
    using updateResume_merges_patch[of example_resume_store "''r1''" example_patch,
            THEN conjunct2, rule_format, OF s]
    by (elim exE conjE) (rule exI, intro conjI, assumption+)
  then obtain u where u:
    "map_get (resumes (snd (updateResume ''r1'' example_patch example_resume_store))) ''r1'' = Some u"
    "\<forall>v. rp_score example_patch = Some v \<longrightarrow> resume_score u = v"
    "rp_fileName example_patch = None \<longrightarrow> resume_fileName u = resume_fileName example_resume"
    by auto
  from u p f have "resume_score u = Some 0" "resume_fileName u = ''cv.txt''" by simp_all
  with 1 u(1) show ?thesis by blast
qed

section \<open>Falsy values at creation\<close>





lemma length_insert_by: "length (insert_by cmp x ys) = Suc (length ys)"
  by (induction ys) auto

lemma length_array_sort: "length (array_sort cmp xs) = length xs"
  by (induction xs) (auto simp: length_insert_by)

section \<open>The activities\<close>

text \<open>The sort keeps the elements and, among elements of equal key, their order; the
  one element of a sorted list whose key is strictly the largest is its first.\<close>

lemma set_array_sort: "set (array_sort cmp xs) = set xs"
  by (induction xs) (auto simp: set_insert_by)

lemma filter_key_insert_by:
  assumes "\<And>a b. cmp a b = key b - key a"
  shows "filter (\<lambda>a. (key a :: int) = t) (insert_by cmp x ys) =
           (if key x = t then x # filter (\<lambda>a. key a = t) ys else filter (\<lambda>a. key a = t) ys)"
proof (induction ys)
  case Nil
  show ?case by simp
next
  case (Cons y ys)
  show ?case
  proof (cases "cmp x y \<le> 0")
    case True
    then show ?thesis by simp
  next
    case False
    then have "key x < key y" using assms[of x y] by simp
    then show ?thesis using False Cons by auto
  qed
qed

lemma filter_key_array_sort:
  assumes "\<And>a b. cmp a b = key b - key a"
  shows "filter (\<lambda>a. (key a :: int) = t) (array_sort cmp xs) = filter (\<lambda>a. key a = t) xs"
  by (induction xs) (simp_all add: filter_key_insert_by[OF assms])

lemma sorted_largest_is_first:
  assumes "sorted_wrt (\<lambda>a b. (key b :: int) \<le> key a) xs" and "x \<in> set xs"
    and "\<forall>y\<in>set xs. y \<noteq> x \<longrightarrow> key y < key x"
  shows "\<exists>rest. xs = x # rest"
proof (cases xs)
  case Nil
  with assms(2) show ?thesis by simp
next
  case (Cons h t)
  show ?thesis
  proof (cases "h = x")
    case True
    with Cons show ?thesis by simp
  next
    case False
    then have "key h < key x" using assms(3) Cons by simp
    moreover have "x \<in> set t" using assms(2) Cons False by auto
    then have "key x \<le> key h" using assms(1) Cons by simp
    ultimately show ?thesis by simp
  qed
qed

lemma map_set_entry_mem: "(k, v) \<in> set (map_set k v m)"
  by (induction m) auto

lemma map_set_value_mem: "v \<in> set (map_values (map_set k v m))"
  using map_set_entry_mem[of k v m] by (force simp: map_values_def)

text \<open>
  C7, as amended. For every store state and user, \<open>getActivitiesByUserId\<close> returns
  exactly that user's activities, sorted by \<open>createdAt\<close> descending, the activities of
  equal \<open>createdAt\<close> in their insertion order. After \<open>createActivity\<close> for that user,
  an immediate re-fetch returns the new activity in first position, provided every
  activity of that user already stored has a strictly earlier \<open>createdAt\<close>.
\<close>

theorem activities_newest_first:
  "sorted_wrt (\<lambda>a b. date_getTime (activity_createdAt b) \<le> date_getTime (activity_createdAt a))
     (getActivitiesByUserId userId st)
   \<and> mset (getActivitiesByUserId userId st) =
       mset (filter (\<lambda>a. activity_userId a = userId) (map_values (activities st)))
   \<and> filter (\<lambda>a. date_getTime (activity_createdAt a) = t) (getActivitiesByUserId userId st) =
       filter (\<lambda>a. date_getTime (activity_createdAt a) = t)
         (filter (\<lambda>a. activity_userId a = userId) (map_values (activities st)))
   \<and> ((\<forall>a\<in>set (getActivitiesByUserId (ia_userId ia) st).
            date_getTime (activity_createdAt a) < now) \<longrightarrow>
        (\<exists>rest. getActivitiesByUserId (ia_userId ia) (snd (createActivity uid now ia st)) =
                  fst (createActivity uid now ia st) # rest))"
proof -
  have c: "\<And>a b. cmp_createdAt a b =
             date_getTime (activity_createdAt b) - date_getTime (activity_createdAt a)"
    by (simp add: cmp_createdAt_def)
  have s: "\<And>u s. sorted_wrt
             (\<lambda>a b. date_getTime (activity_createdAt b) \<le> date_getTime (activity_createdAt a))
             (getActivitiesByUserId u s)"
    unfolding getActivitiesByUserId_def by (rule sorted_array_sort[OF c])
  have e: "\<And>u s. set (getActivitiesByUserId u s) =
             set (filter (\<lambda>a. activity_userId a = u) (map_values (activities s)))"
    unfolding getActivitiesByUserId_def by (rule set_array_sort)
  have 1: "sorted_wrt
             (\<lambda>a b. date_getTime (activity_createdAt b) \<le> date_getTime (activity_createdAt a))
             (getActivitiesByUserId userId st)"
    by (rule s)
  have 2: "mset (getActivitiesByUserId userId st) =
             mset (filter (\<lambda>a. activity_userId a = userId) (map_values (activities st)))"
    unfolding getActivitiesByUserId_def by (simp add: mset_array_sort)
  have 3: "filter (\<lambda>a. date_getTime (activity_createdAt a) = t) (getActivitiesByUserId userId st) =
             filter (\<lambda>a. date_getTime (activity_createdAt a) = t)
               (filter (\<lambda>a. activity_userId a = userId) (map_values (activities st)))"
    unfolding getActivitiesByUserId_def by (rule filter_key_array_sort[OF c])
  have 4: "\<exists>rest. getActivitiesByUserId (ia_userId ia) (snd (createActivity uid now ia st)) =
                    fst (createActivity uid now ia st) # rest"
    if older: "\<forall>a\<in>set (getActivitiesByUserId (ia_userId ia) st).
                  date_getTime (activity_createdAt a) < now"
  proof -
    let ?new = "fst (createActivity uid now ia st)"
    let ?st' = "snd (createActivity uid now ia st)"
    let ?res = "getActivitiesByUserId (ia_userId ia) ?st'"
    have n: "activity_userId ?new = ia_userId ia" "date_getTime (activity_createdAt ?new) = now"
      by (simp_all add: createActivity_def date_getTime_def Let_def)
    have a: "activities ?st' = map_set uid ?new (activities st)"
      by (simp add: createActivity_def Let_def)
    have "?new \<in> set (map_values (activities ?st'))"
      unfolding a by (rule map_set_value_mem)
    then have i: "?new \<in> set ?res" using n(1) by (simp add: e)
    have "set (map_values (activities ?st')) \<subseteq> insert ?new (set (map_values (activities st)))"
      unfolding a by (rule set_map_values_map_set)
    then have "\<forall>y\<in>set ?res. y \<noteq> ?new \<longrightarrow> y \<in> set (getActivitiesByUserId (ia_userId ia) st)"
      by (auto simp: e)
    with older have o: "\<forall>y\<in>set ?res. y \<noteq> ?new \<longrightarrow>
        date_getTime (activity_createdAt y) < date_getTime (activity_createdAt ?new)"
      using n(2) by auto
    from sorted_largest_is_first[OF s i o] show ?thesis .
  qed
  from 1 2 3 4 show ?thesis by blast
qed

theorem activities_newest_first_witness:
  "(\<exists>rest. getActivitiesByUserId ''u''
              (snd (createActivity ''a2'' 1001 example_insert_activity example_activity_store))
            = fst (createActivity ''a2'' 1001 example_insert_activity example_activity_store) # rest)
   \<and> map activity_id
       (getActivitiesByUserId ''u''
          (snd (createActivity ''a2'' 1001 example_insert_activity example_activity_store)))
     = [''a2'', ''a1'']"
proof -
  have old: "getActivitiesByUserId ''u'' example_activity_store =
               [fst (createActivity ''a1'' 1000 example_insert_activity empty_storage)]"
    by (simp add: example_activity_store_def getActivitiesByUserId_def createActivity_def
        empty_storage_def map_values_def example_insert_activity_def Let_def)
  have u: "ia_userId example_insert_activity = ''u''"
    by (simp add: example_insert_activity_def)
  have older: "\<forall>a\<in>set (getActivitiesByUserId (ia_userId example_insert_activity)
                           example_activity_store).
                 date_getTime (activity_createdAt a) < 1001"
    by (simp add: u old createActivity_def date_getTime_def Let_def)
  have 1: "\<exists>rest. getActivitiesByUserId (ia_userId example_insert_activity)
              (snd (createActivity ''a2'' 1001 example_insert_activity example_activity_store))
            = fst (createActivity ''a2'' 1001 example_insert_activity example_activity_store) # rest"
    using activities_newest_first[of "''u''" example_activity_store 0 example_insert_activity
            1001 "''a2''"] older
    by (elim conjE) (erule mp)
  have 2: "map activity_id
       (getActivitiesByUserId ''u''
          (snd (createActivity ''a2'' 1001 example_insert_activity example_activity_store)))
     = [''a2'', ''a1'']"
    by (simp add: example_activity_store_def getActivitiesByUserId_def createActivity_def
        empty_storage_def map_values_def example_insert_activity_def cmp_createdAt_def
        date_getTime_def Let_def)
  from 1 2 show ?thesis unfolding u by (rule conjI)
qed

text \<open>When, moreover, the identifier is new to the store, the rest of the re-fetched
  list is the previous result.\<close>

lemma createActivity_fresh_prepends:
  assumes fresh: "map_get (activities st) uid = None"
    and older: "\<forall>a\<in>set (getActivitiesByUserId (ia_userId ia) st).
                  date_getTime (activity_createdAt a) < now"
  shows "getActivitiesByUserId (ia_userId ia) (snd (createActivity uid now ia st)) =
           fst (createActivity uid now ia st) # getActivitiesByUserId (ia_userId ia) st"
proof -
  have c: "\<And>a b. cmp_createdAt a b =
             date_getTime (activity_createdAt b) - date_getTime (activity_createdAt a)"
    by (simp add: cmp_createdAt_def)
  let ?new = "fst (createActivity uid now ia st)"
  let ?old = "filter (\<lambda>a. activity_userId a = ia_userId ia) (map_values (activities st))"
  have n: "activity_userId ?new = ia_userId ia" "date_getTime (activity_createdAt ?new) = now"
    by (simp_all add: createActivity_def date_getTime_def Let_def)
  have "activities (snd (createActivity uid now ia st)) = activities st @ [(uid, ?new)]"
    using map_set_fresh[OF fresh] by (simp add: createActivity_def Let_def)
  then have f: "filter (\<lambda>a. activity_userId a = ia_userId ia)
               (map_values (activities (snd (createActivity uid now ia st)))) = ?old @ [?new]"
    using n(1) by (simp add: map_values_def)
  have "set ?old = set (getActivitiesByUserId (ia_userId ia) st)"
    unfolding getActivitiesByUserId_def by (simp add: set_array_sort)
  with older have "\<forall>y\<in>set ?old.
      date_getTime (activity_createdAt y) < date_getTime (activity_createdAt ?new)"
    using n(2) by simp
  from array_sort_snoc_newest[OF c this] f show ?thesis
    by (simp add: getActivitiesByUserId_def)
qed

text \<open>
  C7 as stated fails when the clock has not advanced: the sort is stable, so an activity
  created in the same millisecond as a stored one of the same user comes after it.
\<close>

theorem same_millisecond_activity_not_first:
  "activity_id (fst (createActivity ''a2'' 1000 example_insert_activity example_activity_store))
     = ''a2''
   \<and> map activity_id
       (getActivitiesByUserId ''u''
          (snd (createActivity ''a2'' 1000 example_insert_activity example_activity_store)))
     = [''a1'', ''a2'']"
  by (simp add: example_activity_store_def getActivitiesByUserId_def createActivity_def
      empty_storage_def map_values_def example_insert_activity_def cmp_createdAt_def
      date_getTime_def Let_def)

text \<open>
  C10. For every request body that \<open>POST /api/activities\<close> accepts, the activity
  created and returned has \<open>userId\<close> \<open>"default-user"\<close>, whatever \<open>userId\<close> the body
  supplies, and it is the only activity the request adds; a rejected body is answered
  with status 400 and changes nothing. So no request creates an activity of another
  user.
\<close>

theorem post_activity_owner_is_default_user:
  "(insertActivitySchema_safeParse body = None \<longrightarrow>
      post_api_activities uid now body st = (Error 400 ''Invalid activity data'', st))
   \<and> (\<forall>data. insertActivitySchema_safeParse body = Some data \<longrightarrow>
        (\<exists>a st'. post_api_activities uid now body st = (Json 200 a, st')
           \<and> activity_userId a = ''default-user''
           \<and> map_get (activities st') uid = Some a
           \<and> set (map_values (activities st')) \<subseteq> insert a (set (map_values (activities st)))))"
proof (intro conjI allI impI)
  assume "insertActivitySchema_safeParse body = None"
  then show "post_api_activities uid now body st = (Error 400 ''Invalid activity data'', st)"
    by (simp add: post_api_activities_def)
next
  fix data assume p: "insertActivitySchema_safeParse body = Some data"
  let ?r = "createActivity uid now (data\<lparr> ia_userId := defaultUserId \<rparr>) st"
  have 1: "post_api_activities uid now body st = (Json 200 (fst ?r), snd ?r)"
    using p by (simp add: post_api_activities_def split: prod.splits)
  have 2: "activity_userId (fst ?r) = ''default-user''"
    by (simp add: createActivity_def defaultUserId_def Let_def)
  have 3: "map_get (activities (snd ?r)) uid = Some (fst ?r)"
    by (simp add: createActivity_def map_get_map_set_same Let_def)
  have 4: "set (map_values (activities (snd ?r))) \<subseteq> insert (fst ?r) (set (map_values (activities st)))"
    using set_map_values_map_set[of uid "fst ?r" "activities st"]
    by (simp add: createActivity_def Let_def)
  from 1 2 3 4
  show "\<exists>a st'. post_api_activities uid now body st = (Json 200 a, st')
           \<and> activity_userId a = ''default-user''
           \<and> map_get (activities st') uid = Some a
           \<and> set (map_values (activities st')) \<subseteq> insert a (set (map_values (activities st)))"
    by blast
qed

theorem post_activity_owner_is_default_user_witness:
  "map activity_userId
     (map_values (activities (snd (post_api_activities ''a9'' 77 (Some example_body) empty_storage))))
   = [''default-user'']"
proof -
  have p: "insertActivitySchema_safeParse (Some example_body) =
             Some \<lparr> ia_userId = ''mallory'', ia_type = ''note'', ia_description = ''hello'',
                    ia_status = ''new'' \<rparr>"
    by (simp add: insertActivitySchema_safeParse_def example_body_def get_string_def)
  from post_activity_owner_is_default_user[of "Some example_body" "''a9''" 77 empty_storage,
         THEN conjunct2, rule_format, OF p]
  obtain a st' where a:
    "post_api_activities ''a9'' 77 (Some example_body) empty_storage = (Json 200 a, st')"
    "activity_userId a = ''default-user''"
    "map_get (activities st') ''a9'' = Some a"
    by auto
  have s: "activities st' = [(''a9'', a)]"
    using a(1) by (simp add: post_api_activities_def p createActivity_def empty_storage_def
        Let_def split: prod.splits) auto
  show ?thesis using a s by (simp add: map_values_def)
qed

section \<open>The dashboard\<close>

text \<open>What the handler answers, for every store: the job count is replaced by 3 only
  when it is 0.\<close>

lemma dashboard_stats_values:
  "get_api_dashboard_stats st =
     Json 200
       \<lparr> resumeScore =
           num_or_zero (case getResumeByUserId defaultUserId st of None \<Rightarrow> None
                        | Some r \<Rightarrow> resume_score r),
         skillMatches = length (getSkillsByUserId defaultUserId st),
         jobRecommendations = (if jobs st = [] then 3 else length (jobs st)) \<rparr>"
proof -
  have l: "length (getJobs None st) = length (jobs st)"
    by (simp add: getJobs_def length_array_sort map_values_def)
  then have e: "(getJobs None st = []) = (jobs st = [])"
    by (metis length_0_conv)
  show ?thesis by (simp add: get_api_dashboard_stats_def Let_def l e)
qed

text \<open>
  C4. The claim: \<open>GET /api/dashboard/stats\<close> returns the default user's resume score
  (0 without a resume), the number of the default user's skills, and the number of
  stored jobs floored at 3, \<open>max(jobCount, 3)\<close>. The handler computes
  \<open>jobs.length || 3\<close> under the comment "Show minimum 3": with one stored job it
  answers 1, not 3.
\<close>

theorem dashboard_one_job_shows_one:
  "length (map_values (jobs example_job_store)) = 1
   \<and> get_api_dashboard_stats example_job_store =
       Json 200 \<lparr> resumeScore = 0, skillMatches = 4, jobRecommendations = 1 \<rparr>"
  by (simp add: dashboard_stats_values example_job_store_def createJob_def
      initializeSampleData_def empty_storage_def map_values_def getResumeByUserId_def
      getSkillsByUserId_def sample_skill_def defaultUserId_def num_or_zero_def example_uuid_def
      eval_nat_numeral Let_def)

section \<open>The resume upload\<close>

text \<open>
  C5. The claim: after the upload handler completes, on every path (collaborator
  success, fallback, or an exception during processing) the temporary file has been
  deleted. The handler deletes the file at the end of its \<open>try\<close> block only: when the
  collaborator's answer is \<open>null\<close>, reading \<open>success\<close> throws, the \<open>catch\<close> answers
  500, and the file is still there.
\<close>

theorem upload_null_answer_keeps_file:
  "post_api_resume_upload example_uuid example_clock (Resolved None) (Some example_file)
     empty_storage example_files
     = (Error 500 ''Cannot read properties of null (reading 'success')'', empty_storage,
        example_files)
   \<and> example_files (path example_file) = Some ''hello''"
  by (simp add: post_api_resume_upload_def upload_catch_def example_files_def example_file_def)

text \<open>On the two paths that answer 200 the file is deleted.\<close>

lemma upload_answered_200_deletes_file:
  assumes "post_api_resume_upload uuid clock outcome (Some file) st fs = (Json 200 b, st', fs')"
  shows "fs' (path file) = None"
  using assms
  by (auto simp: post_api_resume_upload_def upload_catch_def log_and_cleanup_def unlinkSync_def
      readFile_def Let_def split: option.splits if_splits prod.splits)

text \<open>
  C3. The claim: when the collaborator succeeds with score \<open>s\<close> and \<open>n\<close> skills, the
  returned resume has score \<open>s\<close> and \<open>extractedSkills\<close> is \<open>n\<close>, also for \<open>s = 0\<close>.
  \<open>createResume\<close> stores \<open>score || null\<close>: for the answer with score 0 and two skills
  the returned resume has score \<open>null\<close> (and \<open>extractedSkills\<close> is 2).
\<close>

theorem upload_score_zero_returns_null:
  "py_score example_parse_zero = Some 0
   \<and> fst (post_api_resume_upload example_uuid example_clock (Resolved (Some example_parse_zero))
           (Some example_file) empty_storage example_files)
     = Json 200
         \<lparr> ub_success = True,
           ub_resume =
             \<lparr> resume_id = ''id-'', resume_userId = ''default-user'', resume_fileName = ''cv.txt'',
               resume_content = ''text of the resume'',
               resume_parsedData = Some (fallbackData\<lparr> pd_skills := Some [''Python'', ''SQL''] \<rparr>),
               resume_score = None, resume_uploadedAt = Some 1000 \<rparr>,
           ub_message = Some ''Resume parsed'', ub_extractedSkills = 2 \<rparr>"
  by (simp add: post_api_resume_upload_def example_parse_zero_def example_file_def
      example_uuid_def example_clock_def createResume_def defaultUserId_def num_or_null_def
      obj_or_null_def log_and_cleanup_def Let_def split: prod.splits)

text \<open>For every score other than 0 the returned resume carries it, and
  \<open>extractedSkills\<close> counts the skills.\<close>

lemma upload_success_nonzero_score:
  assumes "py_success d" and "py_score d = Some s" and "s \<noteq> 0"
    and "py_parsedData d = Some pd" and "pd_skills pd = Some xs"
  shows "\<exists>b. fst (post_api_resume_upload uuid clock (Resolved (Some d)) (Some file) st fs)
               = Json 200 b
             \<and> resume_score (ub_resume b) = Some s \<and> ub_extractedSkills b = length xs"
  using assms
  by (simp add: post_api_resume_upload_def createResume_def num_or_null_def
      log_and_cleanup_def Let_def split: prod.splits)

text \<open>
  C2. For every upload in which the collaborator call fails or times out, the resume
  created and returned has score 65, its parsed skills are the fixed fallback skills
  \<open>JavaScript\<close>, \<open>HTML\<close>, \<open>CSS\<close>, and \<open>extractedSkills\<close> is 3; the resume returned
  is the one stored. (Were the uploaded file not readable at its path, no resume would
  be created and the answer would be 500.)
\<close>

theorem upload_fallback_resume:
  assumes "call_failed outcome"
  shows "(readFile fs (path file) = None \<longrightarrow>
            (\<exists>msg. post_api_resume_upload uuid clock outcome (Some file) st fs
                     = (Error 500 msg, st, fs)))
       \<and> (\<forall>content. readFile fs (path file) = Some content \<longrightarrow>
            (\<exists>b st' fs'.
               post_api_resume_upload uuid clock outcome (Some file) st fs = (Json 200 b, st', fs')
             \<and> resume_score (ub_resume b) = Some 65
             \<and> (\<exists>pd. resume_parsedData (ub_resume b) = Some pd
                    \<and> pd_skills pd = Some [''JavaScript'', ''HTML'', ''CSS''])
             \<and> ub_extractedSkills b = 3
             \<and> map_get (resumes st') (uuid 0) = Some (ub_resume b)))"
proof (intro conjI allI impI)
  from assms obtain d where d: "callPythonService outcome = Some d" "\<not> py_success d"
    by (cases outcome) (auto simp: call_failed_def split: option.splits)
  {
    assume "readFile fs (path file) = None"
    with d show "\<exists>msg. post_api_resume_upload uuid clock outcome (Some file) st fs
                         = (Error 500 msg, st, fs)"
      by (simp add: post_api_resume_upload_def upload_catch_def)
  next
    fix content assume c: "readFile fs (path file) = Some content"
    let ?ir = "\<lparr> ir_userId = defaultUserId, ir_fileName = originalname file,
                 ir_content = content, ir_parsedData = Some fallbackData, ir_score = Some 65 \<rparr>"
    let ?r = "fst (createResume (uuid 0) (clock 0) ?ir st)"
    let ?st1 = "snd (createResume (uuid 0) (clock 0) ?ir st)"
    let ?b = "\<lparr> ub_success = True, ub_resume = ?r,
                ub_message = Some ''Resume uploaded (basic parsing - Python service unavailable)'',
                ub_extractedSkills = 3 \<rparr>"
    let ?lc = "log_and_cleanup (uuid (Suc 0)) (clock (Suc 0)) file ?st1 fs"
    have 1: "post_api_resume_upload uuid clock outcome (Some file) st fs
               = (Json 200 ?b, fst ?lc, snd ?lc)"
      using d c
      by (simp add: post_api_resume_upload_def fallbackData_def Let_def split: prod.splits)
    have 2: "resume_score ?r = Some 65"
      by (simp add: createResume_def num_or_null_def Let_def)
    have 3: "resume_parsedData ?r = Some fallbackData"
      by (simp add: createResume_def obj_or_null_def Let_def)
    have 4: "pd_skills fallbackData = Some [''JavaScript'', ''HTML'', ''CSS'']"
      by (simp add: fallbackData_def)
    have 5: "map_get (resumes (fst ?lc)) (uuid 0) = Some ?r"
      by (simp add: log_and_cleanup_def createActivity_def createResume_def
          map_get_map_set_same Let_def)
    show "\<exists>b st' fs'.
               post_api_resume_upload uuid clock outcome (Some file) st fs = (Json 200 b, st', fs')
             \<and> resume_score (ub_resume b) = Some 65
             \<and> (\<exists>pd. resume_parsedData (ub_resume b) = Some pd
                    \<and> pd_skills pd = Some [''JavaScript'', ''HTML'', ''CSS''])
             \<and> ub_extractedSkills b = 3
             \<and> map_get (resumes st') (uuid 0) = Some (ub_resume b)"
      by (rule exI[of _ ?b], rule exI[of _ "fst ?lc"], rule exI[of _ "snd ?lc"])
         (simp add: 1 2 3 4 5)
  }
qed

theorem upload_fallback_resume_witness:
  "\<exists>b st' fs'.
     post_api_resume_upload example_uuid example_clock (Rejected ''timeout of 30000ms exceeded'')
       (Some example_file) empty_storage example_files = (Json 200 b, st', fs')
     \<and> resume_score (ub_resume b) = Some 65 \<and> ub_extractedSkills b = 3"
proof -
  have f: "call_failed (Rejected ''timeout of 30000ms exceeded'')"
    by (simp add: call_failed_def)
  have r: "readFile example_files (path example_file) = Some ''hello''"
    by (simp add: readFile_def example_files_def example_file_def)
  from upload_fallback_resume[OF f, of example_files example_file example_uuid example_clock
         empty_storage, THEN conjunct2, rule_format, OF r]
  show ?thesis by blast
qed

section \<open>The job listing\<close>

text \<open>
  C1, as amended. Every request to \<open>GET /api/jobs\<close> is answered with status 200. When
  the collaborator call failed or the handler threw, the body's \<open>jobs\<close> is the fixed
  fallback list of three jobs, \<open>source\<close> is \<open>"fallback_data"\<close> and the store is
  unchanged. Otherwise the collaborator succeeded with a \<open>jobs\<close> list, and the body's
  \<open>jobs\<close> is that list as sent (it may be empty) and \<open>source\<close> is the source the
  collaborator reported.
\<close>

theorem jobs_route_answers_200:
  "\<exists>b. fst (get_api_jobs uuid clock outcome st) = Json 200 b
     \<and> status (fst (get_api_jobs uuid clock outcome st)) = 200
     \<and> (call_failed outcome \<or> jobs_handler_throws outcome \<longrightarrow>
          jb_jobs b = fallbackJobs \<and> jb_source b = Some ''fallback_data''
          \<and> snd (get_api_jobs uuid clock outcome st) = st)
     \<and> (\<not> call_failed outcome \<and> \<not> jobs_handler_throws outcome \<longrightarrow>
          (\<exists>d. outcome = Resolved (Some d) \<and> py_jobs d = Some (jb_jobs b)
                \<and> jb_source b = py_source d))
     \<and> length fallbackJobs = 3"
proof (cases outcome)
  case (Rejected msg)
  then show ?thesis
    by (simp add: get_api_jobs_def call_failed_def jobs_handler_throws_def fallbackJobs_def)
next
  case (Resolved od)
  show ?thesis
  proof (cases od)
    case None
    with Resolved show ?thesis
      by (simp add: get_api_jobs_def call_failed_def jobs_handler_throws_def jobs_catch_def
          fallbackJobs_def)
  next
    case (Some d)
    with Resolved show ?thesis
      by (cases "py_jobs d")
         (simp_all add: get_api_jobs_def call_failed_def jobs_handler_throws_def jobs_catch_def
          fallbackJobs_def)
  qed
qed

theorem jobs_route_answers_200_witness:
  "(\<exists>b. fst (get_api_jobs example_uuid example_clock (Rejected ''connect ECONNREFUSED'')
               empty_storage) = Json 200 b
        \<and> jb_jobs b = fallbackJobs \<and> jb_source b = Some ''fallback_data'')
   \<and> (\<exists>b. fst (get_api_jobs example_uuid example_clock (Resolved (Some example_no_jobs))
                 empty_storage) = Json 200 b
          \<and> jb_jobs b = [] \<and> jb_source b = Some ''remotive_api'')"
proof -
  have f: "call_failed (Rejected ''connect ECONNREFUSED'')"
    by (simp add: call_failed_def)
  have g: "\<not> call_failed (Resolved (Some example_no_jobs))"
          "\<not> jobs_handler_throws (Resolved (Some example_no_jobs))"
    by (simp_all add: call_failed_def jobs_handler_throws_def example_no_jobs_def)
  have e: "py_jobs example_no_jobs = Some []" "py_source example_no_jobs = Some ''remotive_api''"
    by (simp_all add: example_no_jobs_def)
  from jobs_route_answers_200[of example_uuid example_clock "Rejected ''connect ECONNREFUSED''"
         empty_storage] f
  have 1: "\<exists>b. fst (get_api_jobs example_uuid example_clock (Rejected ''connect ECONNREFUSED'')
               empty_storage) = Json 200 b
        \<and> jb_jobs b = fallbackJobs \<and> jb_source b = Some ''fallback_data''"
    by blast
  from jobs_route_answers_200[of example_uuid example_clock "Resolved (Some example_no_jobs)"
         empty_storage] g
  obtain b d where b:
    "fst (get_api_jobs example_uuid example_clock (Resolved (Some example_no_jobs))
            empty_storage) = Json 200 b"
    "Resolved (Some example_no_jobs) = Resolved (Some d)"
    "py_jobs d = Some (jb_jobs b)" "jb_source b = py_source d"
    by blast
  from b(2) have "d = example_no_jobs" by simp
  with b(3,4) e have c: "jb_jobs b = []" "jb_source b = Some ''remotive_api''" by simp_all
  have 2: "\<exists>b. fst (get_api_jobs example_uuid example_clock (Resolved (Some example_no_jobs))
                 empty_storage) = Json 200 b
          \<and> jb_jobs b = [] \<and> jb_source b = Some ''remotive_api''"
    by (rule exI[of _ b]) (intro conjI b(1) c)
  from 1 2 show ?thesis by (rule conjI)
qed

text \<open>
  C1 as stated fails: a successful answer with an empty \<open>jobs\<close> list is passed on, so
  the body's \<open>jobs\<close> is empty; and a successful answer without the \<open>jobs\<close> key makes
  the handler throw, so \<open>source\<close> is \<open>"fallback_data"\<close> although the collaborator call
  did not fail.
\<close>

theorem jobs_route_empty_list_and_source:
  "fst (get_api_jobs example_uuid example_clock (Resolved (Some example_no_jobs)) empty_storage)
     = Json 200 \<lparr> jb_success = True, jb_jobs = [], jb_source = Some ''remotive_api'',
                  jb_message = Some ''No jobs found'' \<rparr>
   \<and> \<not> call_failed (Resolved (Some example_missing_jobs))
   \<and> fst (get_api_jobs example_uuid example_clock (Resolved (Some example_missing_jobs))
           empty_storage)
     = Json 200 \<lparr> jb_success = True, jb_jobs = fallbackJobs, jb_source = Some ''fallback_data'',
                  jb_message = Some ''Error occurred - Using fallback data'' \<rparr>"
  by (simp add: get_api_jobs_def example_no_jobs_def example_missing_jobs_def call_failed_def
      jobs_catch_def)

end
